theory Spec2Isabelle
  imports Main "HOL-Library.Word"
begin

unbundle bit_operations_syntax

section \<open>Bytes, strings and errors\<close>

text \<open>
  A \<^verbatim>\<open>std::string\<close> is a sequence of 8-bit characters: \<^typ>\<open>string\<close>.
  An \<^verbatim>\<open>unsigned char\<close> buffer is a list of 8-bit words.  Every exception
  of the source is a value of \<open>error\<close>: \<^verbatim>\<open>std::stoi\<close> throws
  \<^verbatim>\<open>std::invalid_argument\<close> or \<^verbatim>\<open>std::out_of_range\<close>, the
  class itself throws \<^verbatim>\<open>std::runtime_error\<close> with a message.
\<close>

type_synonym byte = "8 word"

datatype error = InvalidArgument | OutOfRange | RuntimeError string

section \<open>Codec: \<^verbatim>\<open>bytesToHex\<close> and \<^verbatim>\<open>hexToBytes\<close>\<close>

text \<open>The digit characters the stream writes under \<^verbatim>\<open>std::hex\<close>: lower case.\<close>

definition hex_digit :: "nat \<Rightarrow> char" where
  "hex_digit d = ''0123456789abcdef'' ! d"

text \<open>
  The stream's rendering of a non-negative \<^verbatim>\<open>int\<close> in base 16: no leading
  zeros, one digit for zero.
\<close>

function hex_digits :: "nat \<Rightarrow> string" where
  "hex_digits n = (if n < 16 then [hex_digit n] else hex_digits (n div 16) @ [hex_digit (n mod 16)])"
  by pat_completeness auto
termination
  by (relation "measure id") auto

declare hex_digits.simps [simp del]

text \<open>\<^verbatim>\<open>std::setw(w)\<close> with \<^verbatim>\<open>std::setfill(c)\<close>: pad on the left up to width \<open>w\<close>.\<close>

definition setw_fill :: "nat \<Rightarrow> char \<Rightarrow> string \<Rightarrow> string" where
  "setw_fill w c s = replicate (w - length s) c @ s"

text \<open>
  \<^verbatim>\<open>bytesToHex(data, len)\<close>: the loop over \<open>i < len\<close> appends
  \<^verbatim>\<open>setw(2) << static_cast<int>(data[i])\<close> to the stream.
\<close>

fun bytesToHex :: "byte list \<Rightarrow> string" where
  "bytesToHex [] = []"
| "bytesToHex (b # bs) = setw_fill 2 (CHR ''0'') (hex_digits (unat b)) @ bytesToHex bs"

text \<open>
  \<^verbatim>\<open>std::stoi(str, nullptr, 16)\<close> is \<^verbatim>\<open>strtol\<close> in base 16 in the C locale:
  leading white space is skipped, one sign is accepted, then an optional
  \<^verbatim>\<open>0x\<close> or \<^verbatim>\<open>0X\<close> prefix (taken only in front of a hex digit), then the
  longest run of hex digits.  No digit at all throws \<^verbatim>\<open>std::invalid_argument\<close>;
  a value outside \<^verbatim>\<open>int\<close> throws \<^verbatim>\<open>std::out_of_range\<close>.  Parsing stops at
  the first character that is not a digit, so also at an embedded NUL.
\<close>

definition isspace :: "char \<Rightarrow> bool" where
  "isspace c = (c = CHR 0x20 \<or> c = CHR 0x09 \<or> c = CHR 0x0A \<or> c = CHR 0x0B \<or> c = CHR 0x0C \<or> c = CHR 0x0D)"

definition hex_val :: "char \<Rightarrow> nat option" where
  "hex_val c =
     (let n = (of_char c :: nat) in
      if 48 \<le> n \<and> n \<le> 57 then Some (n - 48)
      else if 97 \<le> n \<and> n \<le> 102 then Some (n - 87)
      else if 65 \<le> n \<and> n \<le> 70 then Some (n - 55)
      else None)"

definition is_hex :: "char \<Rightarrow> bool" where
  "is_hex c = (hex_val c \<noteq> None)"

fun strip_sign :: "string \<Rightarrow> bool \<times> string" where
  "strip_sign (c # cs) =
     (if c = CHR ''-'' then (True, cs) else if c = CHR ''+'' then (False, cs) else (False, c # cs))"
| "strip_sign [] = (False, [])"

fun strip_0x :: "string \<Rightarrow> string" where
  "strip_0x (z # x # d # cs) =
     (if z = CHR ''0'' \<and> (x = CHR ''x'' \<or> x = CHR ''X'') \<and> is_hex d then d # cs
      else z # x # d # cs)"
| "strip_0x cs = cs"

definition stoi16 :: "string \<Rightarrow> error + int" where
  "stoi16 str =
     (let (neg, body) = strip_sign (dropWhile isspace str);
          ds = takeWhile is_hex (strip_0x body)
      in if ds = [] then Inl InvalidArgument
         else
           let v = foldl (\<lambda>acc c. 16 * acc + int (the (hex_val c))) 0 ds;
               r = (if neg then - v else v)
           in if r < - (2 ^ 31) \<or> 2 ^ 31 - 1 < r then Inl OutOfRange else Inr r)"

text \<open>
  \<^verbatim>\<open>hexToBytes(hex)\<close>: the loop takes \<^verbatim>\<open>hex.substr(i, 2)\<close> for
  \<open>i = 0, 2, 4, ...\<close> while \<open>i < hex.length()\<close> (the last chunk has one character
  when the length is odd), converts it with \<^verbatim>\<open>std::stoi\<close> and narrows the
  \<^verbatim>\<open>int\<close> to \<^verbatim>\<open>unsigned char\<close>.  An exception of \<^verbatim>\<open>std::stoi\<close>
  leaves the function at the first chunk that raises it.
\<close>

fun hexToBytes :: "string \<Rightarrow> error + byte list" where
  "hexToBytes [] = Inr []"
| "hexToBytes [c] =
     (case stoi16 [c] of Inl e \<Rightarrow> Inl e | Inr v \<Rightarrow> Inr [of_int v])"
| "hexToBytes (c1 # c2 # cs) =
     (case stoi16 [c1, c2] of
        Inl e \<Rightarrow> Inl e
      | Inr v \<Rightarrow> (case hexToBytes cs of Inl e \<Rightarrow> Inl e | Inr bs \<Rightarrow> Inr (of_int v # bs)))"


text \<open>The chunks the loop of \<^verbatim>\<open>hexToBytes\<close> cuts its argument into.\<close>

fun chunks :: "string \<Rightarrow> string list" where
  "chunks [] = []"
| "chunks [c] = [[c]]"
| "chunks (c1 # c2 # cs) = [c1, c2] # chunks cs"

text \<open>
  A chunk of one or two characters begins with a hex number when its first character is a
  hex digit, or is white space or a sign and the second character is a hex digit.
\<close>

fun leading_hex :: "string \<Rightarrow> bool" where
  "leading_hex [c] = is_hex c"
| "leading_hex [c1, c2] =
     (is_hex c1 \<or> ((isspace c1 \<or> c1 = CHR ''+'' \<or> c1 = CHR ''-'') \<and> is_hex c2))"
| "leading_hex cs = False"

definition is_lower_hex :: "char \<Rightarrow> bool" where
  "is_lower_hex c = (c \<in> set ''0123456789abcdef'')"

section \<open>The library's primitives\<close>

text \<open>
  The class calls OpenSSL.  The hash \<^verbatim>\<open>EVP_sha256\<close> and the block function of
  AES-128 are parameters of the model: any functions of these types, so that whatever is
  proved holds for SHA-256 and AES.  The third field records a choice the C++ standard
  leaves to the implementation: whether \<^verbatim>\<open>data()\<close> of an empty
  \<^verbatim>\<open>std::vector\<close> is the null pointer (it is in libstdc++, libc++ and MSVC,
  where an empty vector owns no storage).
\<close>

record platform =
  sha256 :: "string \<Rightarrow> 256 word"
  aes128 :: "128 word \<Rightarrow> 128 word \<Rightarrow> 128 word"
  empty_data_null :: bool

text \<open>The \<open>k\<close> low bytes of a word, most significant first.\<close>

definition word_bytes :: "nat \<Rightarrow> 'a::len word \<Rightarrow> byte list" where
  "word_bytes k w = map (\<lambda>i. ucast (drop_bit (8 * (k - 1 - i)) w)) [0..<k]"

definition block_of_bytes :: "byte list \<Rightarrow> 128 word" where
  "block_of_bytes bs = foldl (\<lambda>w b. push_bit 8 w OR ucast b) 0 bs"

definition byte_of_char :: "char \<Rightarrow> byte" where
  "byte_of_char c = of_nat (of_char c)"

definition char_of_byte :: "byte \<Rightarrow> char" where
  "char_of_byte b = char_of (unat b)"

text \<open>
  A \<^verbatim>\<open>size_t\<close> passed for an \<^verbatim>\<open>int\<close> parameter (the \<^verbatim>\<open>inl\<close> of
  \<^verbatim>\<open>EVP_EncryptUpdate\<close> and \<^verbatim>\<open>EVP_DecryptUpdate\<close>) keeps its low 32 bits,
  read as two's complement.
\<close>

definition int_of_size :: "nat \<Rightarrow> int" where
  "int_of_size n = (let m = int n mod 2 ^ 32 in if m < 2 ^ 31 then m else m - 2 ^ 32)"

section \<open>AES-128 in CCM mode, 12-byte nonce, 16-byte tag\<close>

text \<open>
  \<^verbatim>\<open>EVP_aes_128_ccm\<close> with \<^verbatim>\<open>EVP_CTRL_CCM_SET_IVLEN = 12\<close> and a tag of 16
  bytes is CCM (RFC 3610, NIST SP 800-38C) with \<open>M = 16\<close> and \<open>L = 15 - 12 = 3\<close>, and the
  class passes no associated data.  The first block \<open>B\<^sub>0\<close> holds the flags
  \<open>8 * ((M - 2) div 2) + (L - 1) = 58\<close>, the nonce and the message length in \<open>L\<close> bytes;
  the counter blocks hold the flags \<open>L - 1 = 2\<close>, the nonce and the counter in \<open>L\<close> bytes.
  The length field has three bytes: the library refuses a message of \<open>2\<^sup>2\<^sup>4\<close> bytes or
  more when the data is passed (its length does not match the one the field holds).
\<close>

definition be3 :: "nat \<Rightarrow> byte list" where
  "be3 n = [of_nat (n div 65536), of_nat (n div 256), of_nat n]"

definition ccm_b0 :: "byte list \<Rightarrow> nat \<Rightarrow> 128 word" where
  "ccm_b0 nonce mlen = block_of_bytes (58 # nonce @ be3 mlen)"

definition ccm_ctr :: "byte list \<Rightarrow> nat \<Rightarrow> 128 word" where
  "ccm_ctr nonce i = block_of_bytes (2 # nonce @ be3 i)"

definition xor_bytes :: "byte list \<Rightarrow> byte list \<Rightarrow> byte list" where
  "xor_bytes xs ys = map2 (\<lambda>x y. x XOR y) xs ys"

text \<open>CBC-MAC over the message, sixteen bytes at a time, the last block padded with zeros.\<close>

function ccm_mac :: "(128 word \<Rightarrow> 128 word) \<Rightarrow> 128 word \<Rightarrow> byte list \<Rightarrow> 128 word" where
  "ccm_mac enc x msg =
     (if msg = [] then x
      else ccm_mac enc
             (enc (x XOR block_of_bytes (take 16 msg @ replicate (16 - length msg) 0)))
             (drop 16 msg))"
  by pat_completeness auto
termination
  by (relation "measure (\<lambda>(enc, x, msg). length msg)") auto

declare ccm_mac.simps [simp del]

text \<open>Counter mode: block \<open>i\<close> of the data is xor-ed with the encryption of counter block \<open>i\<close>.\<close>

function ccm_crypt :: "(128 word \<Rightarrow> 128 word) \<Rightarrow> byte list \<Rightarrow> nat \<Rightarrow> byte list \<Rightarrow> byte list" where
  "ccm_crypt enc nonce i data =
     (if data = [] then []
      else xor_bytes (take 16 data) (word_bytes 16 (enc (ccm_ctr nonce i)))
           @ ccm_crypt enc nonce (i + 1) (drop 16 data))"
  by pat_completeness auto
termination
  by (relation "measure (\<lambda>(enc, nonce, i, data). length data)") auto

declare ccm_crypt.simps [simp del]

text \<open>The tag: the CBC-MAC of \<open>B\<^sub>0\<close> and the message, xor-ed with the encryption of counter block 0.\<close>

definition ccm_tag :: "(128 word \<Rightarrow> 128 word) \<Rightarrow> byte list \<Rightarrow> byte list \<Rightarrow> byte list" where
  "ccm_tag enc nonce msg =
     xor_bytes (word_bytes 16 (ccm_mac enc (enc (ccm_b0 nonce (length msg))) msg))
               (word_bytes 16 (enc (ccm_ctr nonce 0)))"

text \<open>
  The AES-128 key is the first 16 of the 32 bytes of \<^verbatim>\<open>keyHash\<close>: the cipher reads
  as many bytes as its key has.
\<close>

definition ccm_key :: "platform \<Rightarrow> string \<Rightarrow> 128 word" where
  "ccm_key P key = ucast (drop_bit 128 (sha256 P key))"

section \<open>\<^verbatim>\<open>encrypt\<close> and \<^verbatim>\<open>decrypt\<close>\<close>

text \<open>
  The calls follow the library's protocol for CCM (manual page \<^verbatim>\<open>EVP_EncryptInit\<close>,
  AEAD interface): the total length is passed first, in a call of
  \<^verbatim>\<open>EVP_EncryptUpdate\<close> or \<^verbatim>\<open>EVP_DecryptUpdate\<close> with both \<^verbatim>\<open>out\<close> and
  \<^verbatim>\<open>in\<close> null; a call with only \<^verbatim>\<open>out\<close> null passes associated data; a call
  with both set passes the message, and when decrypting it is this call that compares the
  tag and fails when it differs.

  \<^verbatim>\<open>encrypt(key, msg)\<close>.  The twelve bytes of \<^verbatim>\<open>RAND_bytes\<close> are an input:
  \<open>None\<close> when the generator fails.  The calls, in the order of the source:

  \<^item> \<^verbatim>\<open>EVP_EncryptUpdate(ctx, nullptr, &len, nullptr, msg.length())\<close> sets the
    message length; it fails on a negative \<^verbatim>\<open>inl\<close>.
  \<^item> \<^verbatim>\<open>EVP_EncryptUpdate(ctx, ciphertext.data(), &len, msg, msg.length())\<close> passes
    the message.  For the empty message \<^verbatim>\<open>ciphertext\<close> is an empty vector, and
    where its \<^verbatim>\<open>data()\<close> is null this is a call that passes associated data:
    nothing is encrypted, and \<^verbatim>\<open>EVP_CTRL_CCM_GET_TAG\<close> fails afterwards, since no
    tag has been computed.  Otherwise the call fails when the length does not fit the
    length field, and else encrypts \<^verbatim>\<open>inl\<close> bytes into the buffer of
    \<^verbatim>\<open>msg.length()\<close> zero bytes.
  \<^item> \<^verbatim>\<open>EVP_CTRL_CCM_GET_TAG\<close> gives the tag of the message that was encrypted.

  The result is the hex encoding of nonce, buffer and tag.
\<close>

definition encrypt :: "platform \<Rightarrow> 96 word option \<Rightarrow> string \<Rightarrow> string \<Rightarrow> error + string" where
  "encrypt P rand key msg =
     (case rand of
        None \<Rightarrow> Inl (RuntimeError ''Failed to generate nonce'')
      | Some r \<Rightarrow>
          let nonce = word_bytes 12 r;
              enc = aes128 P (ccm_key P key);
              inl = int_of_size (length msg)
          in if inl < 0 then Inl (RuntimeError ''Failed to set message length'')
             else if msg = [] \<and> empty_data_null P then Inl (RuntimeError ''Failed to get tag'')
             else if 2 ^ 24 \<le> inl then Inl (RuntimeError ''Failed to encrypt message'')
             else
               let data = map byte_of_char (take (nat inl) msg);
                   ciphertext = ccm_crypt enc nonce 1 data @ replicate (length msg - nat inl) 0;
                   tag = ccm_tag enc nonce data
               in Inr (bytesToHex (nonce @ ciphertext @ tag)))"

text \<open>
  \<^verbatim>\<open>decrypt(key, encryptedHex)\<close>.  After the length check the buffer is split into
  nonce, ciphertext and tag, and the same calls are made with
  \<^verbatim>\<open>EVP_DecryptUpdate\<close>: the first sets the length, the second passes the ciphertext
  and compares the tag, failing when the tags differ or the length does not fit the
  length field.  For an envelope of exactly 28 bytes \<^verbatim>\<open>plaintext\<close> is an empty
  vector, and where its \<^verbatim>\<open>data()\<close> is null the second call passes associated data
  instead: it compares no tag and reports success with zero bytes written.
\<close>

definition decrypt :: "platform \<Rightarrow> string \<Rightarrow> string \<Rightarrow> error + string" where
  "decrypt P key encryptedHex =
     (case hexToBytes encryptedHex of
        Inl e \<Rightarrow> Inl e
      | Inr encrypted \<Rightarrow>
          if length encrypted < 28 then Inl (RuntimeError ''Invalid encrypted data length'')
          else
            let enc = aes128 P (ccm_key P key);
                nonce = take 12 encrypted;
                ciphertext_len = length encrypted - 28;
                ciphertext = drop 12 encrypted;
                tag = drop (length encrypted - 16) encrypted;
                inl = int_of_size ciphertext_len
            in if inl < 0 then Inl (RuntimeError ''Failed to set ciphertext length'')
               else if ciphertext_len = 0 \<and> empty_data_null P then Inr []
               else if 2 ^ 24 \<le> inl
                 then Inl (RuntimeError ''Failed to decrypt message or tag verification failed'')
               else
                 let plaintext = ccm_crypt enc nonce 1 (take (nat inl) ciphertext)
                 in if ccm_tag enc nonce plaintext = tag
                    then Inr (map char_of_byte plaintext)
                    else Inl (RuntimeError ''Failed to decrypt message or tag verification failed''))"

text \<open>A platform for concrete runs: a digest and a block function of a few operations.\<close>

definition toy_platform :: platform where
  "toy_platform =
     \<lparr>sha256 = (\<lambda>s. push_bit 250 (of_nat (length s)) + push_bit 130 (of_nat (length s)) + 7),
      aes128 = (\<lambda>k b. (b XOR k) + 1),
      empty_data_null = True\<rparr>"

section \<open>Big numbers\<close>

text \<open>\<^verbatim>\<open>BN_bin2bn\<close>: a byte string read as a big-endian number.\<close>

definition be_nat :: "byte list \<Rightarrow> nat" where
  "be_nat bs = foldl (\<lambda>acc b. 256 * acc + unat b) 0 bs"

text \<open>\<^verbatim>\<open>BN_bn2bin\<close>: the big-endian bytes of a number, none for zero.\<close>

function be_bytes :: "nat \<Rightarrow> byte list" where
  "be_bytes v = (if v = 0 then [] else be_bytes (v div 256) @ [of_nat (v mod 256)])"
  by pat_completeness auto
termination
  by (relation "measure id") auto

declare be_bytes.simps [simp del]


text \<open>\<^verbatim>\<open>BN_num_bits\<close>.\<close>

function num_bits :: "nat \<Rightarrow> nat" where
  "num_bits v = (if v = 0 then 0 else Suc (num_bits (v div 2)))"
  by pat_completeness auto
termination
  by (relation "measure id") auto

declare num_bits.simps [simp del]

text \<open>
  The inverse of \<open>a\<close> modulo \<open>m\<close>, by the extended Euclidean algorithm
  (\<^verbatim>\<open>BN_mod_inverse\<close>).
\<close>

function egcd :: "nat \<Rightarrow> nat \<Rightarrow> int \<times> int" where
  "egcd a b =
     (if b = 0 then (1, 0)
      else (case egcd b (a mod b) of (x, y) \<Rightarrow> (y, x - y * int (a div b))))"
  by pat_completeness auto
termination
  by (relation "measure snd") auto

declare egcd.simps [simp del]

definition mod_inverse :: "nat \<Rightarrow> nat \<Rightarrow> nat" where
  "mod_inverse a m = nat (fst (egcd a m) mod int m)"

section \<open>The curve\<close>

text \<open>
  \<^verbatim>\<open>EC_KEY_new_by_curve_name\<close> looks the curve up in the library: a prime \<open>p\<close>, the
  coefficients of \<open>y\<^sup>2 = x\<^sup>3 + a x + b\<close>, a generator and its order.  The model takes the curve
  as a parameter; \<open>prime256v1\<close> is the one the class names.
\<close>

record curve =
  fld_p :: nat
  coef_a :: nat
  coef_b :: nat
  gen_x :: nat
  gen_y :: nat
  ord_n :: nat

definition prime256v1 :: curve where
  "prime256v1 = \<lparr>
     fld_p = 0xffffffff00000001000000000000000000000000ffffffffffffffffffffffff,
     coef_a = 0xffffffff00000001000000000000000000000000fffffffffffffffffffffffc,
     coef_b = 0x5ac635d8aa3a93e7b3ebbd55769886bc651d06b0cc53b0f63bce3c3e27d2604b,
     gen_x = 0x6b17d1f2e12c4247f8bce6e563a440f277037d812deb33a0f4a13945d898c296,
     gen_y = 0x4fe342e2fe1a7f9b8ee7eb4a7c0f9e162bce33576b315ececbb6406837bf51f5,
     ord_n = 0xffffffff00000000ffffffffffffffffbce6faada7179e84f3b9cac2fc632551\<rparr>"

text \<open>A curve small enough to run on: \<open>y\<^sup>2 = x\<^sup>3 + 2 x + 2\<close> over the field of 17 elements.\<close>

definition toy_curve :: curve where
  "toy_curve = \<lparr>fld_p = 17, coef_a = 2, coef_b = 2, gen_x = 5, gen_y = 1, ord_n = 19\<rparr>"

text \<open>An \<^verbatim>\<open>EC_POINT\<close>: the point at infinity or a pair of coordinates.\<close>

datatype point = Infinity | Affine nat nat

definition generator :: "curve \<Rightarrow> point" where
  "generator C = Affine (gen_x C) (gen_y C)"

fun on_curve :: "curve \<Rightarrow> point \<Rightarrow> bool" where
  "on_curve C Infinity = True"
| "on_curve C (Affine x y) =
     (x < fld_p C \<and> y < fld_p C \<and>
      (y * y) mod fld_p C = (x * x * x + coef_a C * x + coef_b C) mod fld_p C)"

text \<open>Subtraction and division in the field.\<close>

definition fsub :: "nat \<Rightarrow> nat \<Rightarrow> nat \<Rightarrow> nat" where
  "fsub p u v = (u + p - v mod p) mod p"

definition fdiv :: "nat \<Rightarrow> nat \<Rightarrow> nat \<Rightarrow> nat" where
  "fdiv p u v = (u * mod_inverse (v mod p) p) mod p"

text \<open>The third point of the line with slope \<open>l\<close> through the points with abscissas \<open>x1\<close> and \<open>x2\<close>.\<close>

definition third_point :: "nat \<Rightarrow> nat \<Rightarrow> nat \<Rightarrow> nat \<Rightarrow> nat \<Rightarrow> point" where
  "third_point p l x1 y1 x2 =
     (let x3 = fsub p (fsub p (l * l) x1) x2
      in Affine x3 (fsub p (l * fsub p x1 x3) y1))"

text \<open>\<^verbatim>\<open>EC_POINT_add\<close>: the chord and tangent law.\<close>

fun point_add :: "curve \<Rightarrow> point \<Rightarrow> point \<Rightarrow> point" where
  "point_add C Infinity Q = Q"
| "point_add C (Affine x1 y1) Infinity = Affine x1 y1"
| "point_add C (Affine x1 y1) (Affine x2 y2) =
     (let p = fld_p C in
      if x1 = x2 \<and> y1 = y2 \<and> y1 \<noteq> 0
        then third_point p (fdiv p (3 * x1 * x1 + coef_a C) (2 * y1)) x1 y1 x2
      else if x1 = x2 then Infinity
      else third_point p (fdiv p (fsub p y2 y1) (fsub p x2 x1)) x1 y1 x2)"

text \<open>\<^verbatim>\<open>EC_POINT_mul\<close> with one point: the point added to itself \<open>k\<close> times.\<close>

fun point_mul :: "curve \<Rightarrow> nat \<Rightarrow> point \<Rightarrow> point" where
  "point_mul C 0 Q = Infinity"
| "point_mul C (Suc k) Q = point_add C Q (point_mul C k Q)"


text \<open>A square root modulo \<open>p\<close> (\<^verbatim>\<open>BN_mod_sqrt\<close>), if there is one.\<close>

definition mod_sqrt :: "nat \<Rightarrow> nat \<Rightarrow> nat option" where
  "mod_sqrt p v = find (\<lambda>y. (y * y) mod p = v mod p) [0..<p]"

text \<open>
  \<^verbatim>\<open>EC_POINT_oct2point\<close> on a point that \<^verbatim>\<open>EC_POINT_new\<close> has just made, which
  is the point at infinity.  The result is whether the call succeeds, and the point
  afterwards.  The first byte gives the form: \<open>00\<close> alone is the point at infinity,
  \<open>02\<close> and \<open>03\<close> a compressed point, \<open>04\<close> an uncompressed one, \<open>06\<close> and \<open>07\<close> a
  hybrid one.  Coordinates must be below the prime.  The coordinates of an uncompressed or
  hybrid point are stored before they are checked against the curve equation, so a point
  off the curve fails and stays.
\<close>

definition oct2point :: "curve \<Rightarrow> byte list \<Rightarrow> bool \<times> point" where
  "oct2point C buf =
     (case buf of
        [] \<Rightarrow> (False, Infinity)
      | b # rest \<Rightarrow>
          let p = fld_p C;
              y_bit = unat b mod 2;
              form = unat b - y_bit;
              field_len = length (be_bytes p)
          in if form \<noteq> 0 \<and> form \<noteq> 2 \<and> form \<noteq> 4 \<and> form \<noteq> 6 then (False, Infinity)
             else if (form = 0 \<or> form = 4) \<and> y_bit = 1 then (False, Infinity)
             else if form = 0 then (if rest = [] then (True, Infinity) else (False, Infinity))
             else if length rest \<noteq> (if form = 2 then field_len else 2 * field_len)
               then (False, Infinity)
             else
               let x = be_nat (take field_len rest) in
               if p \<le> x then (False, Infinity)
               else if form = 2 then
                 (case mod_sqrt p (x * x * x + coef_a C * x + coef_b C) of
                    None \<Rightarrow> (False, Infinity)
                  | Some y \<Rightarrow>
                      if y mod 2 = y_bit then (True, Affine x y)
                      else if y = 0 then (False, Infinity)
                      else (True, Affine x (p - y)))
               else
                 let y = be_nat (drop field_len rest) in
                 if p \<le> y then (False, Infinity)
                 else if form = 6 \<and> y mod 2 \<noteq> y_bit then (False, Infinity)
                 else (on_curve C (Affine x y), Affine x y))"

section \<open>ECDSA\<close>

text \<open>
  The digest as a number: its leftmost bits, as many as the order has
  (all 256 for \<open>prime256v1\<close>).
\<close>

definition bits2int :: "curve \<Rightarrow> 256 word \<Rightarrow> nat" where
  "bits2int C h =
     (let i = num_bits (ord_n C);
          len = (if i < 256 then (i + 7) div 8 else 32);
          m = be_nat (take len (word_bytes 32 h))
      in if i < 8 * len then m div 2 ^ (8 - i mod 8) else m)"


text \<open>
  \<^verbatim>\<open>ECDSA_do_verify\<close>: 1 for a valid signature, 0 for an invalid one, -1 for an
  error, which a null signature is, and a sum \<open>u\<^sub>1 G + u\<^sub>2 Q\<close> at infinity.
\<close>

definition ecdsa_do_verify :: "curve \<Rightarrow> nat \<Rightarrow> (int \<times> int) option \<Rightarrow> point \<Rightarrow> int" where
  "ecdsa_do_verify C z signature Q =
     (case signature of
        None \<Rightarrow> - 1
      | Some (r, s) \<Rightarrow>
          let n = ord_n C in
          if r \<le> 0 \<or> int n \<le> r \<or> s \<le> 0 \<or> int n \<le> s then 0
          else
            let w = mod_inverse (nat s) n;
                u1 = (z * w) mod n;
                u2 = (nat r * w) mod n
            in (case point_add C (point_mul C u1 (generator C)) (point_mul C u2 Q) of
                  Infinity \<Rightarrow> - 1
                | Affine x y \<Rightarrow> if x mod n = nat r then 1 else 0))"

section \<open>The DER form of a signature\<close>




definition parse_len :: "byte list \<Rightarrow> (nat \<times> byte list) option" where
  "parse_len bs =
     (case bs of
        [] \<Rightarrow> None
      | b # rest \<Rightarrow>
          if unat b < 128 then Some (unat b, rest)
          else
            let k = unat b - 128 in
            if k = 0 \<or> length rest < k then None
            else Some (be_nat (take k rest), drop k rest))"

text \<open>One element with the given tag: its content and what follows it.\<close>

definition parse_tlv :: "byte \<Rightarrow> byte list \<Rightarrow> (byte list \<times> byte list) option" where
  "parse_tlv tag bs =
     (case bs of
        [] \<Rightarrow> None
      | t # rest \<Rightarrow>
          if t \<noteq> tag then None
          else
            (case parse_len rest of
               None \<Rightarrow> None
             | Some (l, rest') \<Rightarrow>
                 if length rest' < l then None else Some (take l rest', drop l rest')))"

text \<open>
  The value of an INTEGER's content, in two's complement; no content and a first byte
  that only pads are refused.
\<close>

definition parse_integer :: "byte list \<Rightarrow> int option" where
  "parse_integer content =
     (case content of
        [] \<Rightarrow> None
      | b # cs \<Rightarrow>
          if (case cs of
                [] \<Rightarrow> False
              | c # cs' \<Rightarrow> (b = 0 \<and> unat c < 128) \<or> (b = 255 \<and> 128 \<le> unat c))
            then None
          else if unat b < 128 then Some (int (be_nat content))
          else Some (int (be_nat content) - 256 ^ length content))"

text \<open>
  \<^verbatim>\<open>d2i_ECDSA_SIG\<close>: a SEQUENCE holding exactly two INTEGERs; bytes after the
  SEQUENCE are not looked at.  \<open>None\<close> is the null pointer.
\<close>

definition d2i_ECDSA_SIG :: "byte list \<Rightarrow> (int \<times> int) option" where
  "d2i_ECDSA_SIG bs =
     (case parse_tlv 48 bs of
        None \<Rightarrow> None
      | Some (body, after) \<Rightarrow>
          (case parse_tlv 2 body of
             None \<Rightarrow> None
           | Some (c1, rest1) \<Rightarrow>
               (case parse_tlv 2 rest1 of
                  None \<Rightarrow> None
                | Some (c2, rest2) \<Rightarrow>
                    if rest2 \<noteq> [] then None
                    else
                      (case (parse_integer c1, parse_integer c2) of
                         (Some r, Some s) \<Rightarrow> Some (r, s)
                       | _ \<Rightarrow> None))))"

section \<open>Keys, signatures and the shared key\<close>



text \<open>
  \<^verbatim>\<open>verify(signatureHex, message, publicKeyHex)\<close>.  The result of
  \<^verbatim>\<open>EC_POINT_oct2point\<close> is not looked at: the key is whatever point the call leaves.
  The null pointer of a signature that does not parse goes to \<^verbatim>\<open>ECDSA_do_verify\<close>
  as it is.
\<close>

definition verify :: "curve \<Rightarrow> platform \<Rightarrow> string \<Rightarrow> string \<Rightarrow> string \<Rightarrow> error + bool" where
  "verify C P signatureHex message publicKeyHex =
     (case hexToBytes publicKeyHex of
        Inl e \<Rightarrow> Inl e
      | Inr publicKeyBytes \<Rightarrow>
          let pub = snd (oct2point C publicKeyBytes);
              hash = sha256 P message
          in (case hexToBytes signatureHex of
                Inl e \<Rightarrow> Inl e
              | Inr sigBytes \<Rightarrow>
                  let signature = d2i_ECDSA_SIG sigBytes;
                      result = ecdsa_do_verify C (bits2int C hash) signature pub
                  in Inr (result = 1)))"


section \<open>What the proofs ask of a curve\<close>



section \<open>Properties of the codec\<close>


lemma lt16_cases:
  "d < (16::nat) \<Longrightarrow> d = 0 \<or> d = 1 \<or> d = 2 \<or> d = 3 \<or> d = 4 \<or> d = 5 \<or> d = 6 \<or> d = 7 \<or> d = 8
     \<or> d = 9 \<or> d = 10 \<or> d = 11 \<or> d = 12 \<or> d = 13 \<or> d = 14 \<or> d = 15"
  by arith

lemma hex_val_hex_digit: "d < 16 \<Longrightarrow> hex_val (hex_digit d) = Some d"
  by (drule lt16_cases) (elim disjE; simp add: hex_val_def hex_digit_def)

lemma is_hex_hex_digit: "d < 16 \<Longrightarrow> is_hex (hex_digit d)"
  by (simp add: is_hex_def hex_val_hex_digit)

lemma hex_digit_plain:
  "d < 16 \<Longrightarrow> hex_digit d \<noteq> CHR ''-'' \<and> hex_digit d \<noteq> CHR ''+'' \<and> hex_digit d \<noteq> CHR ''x''
     \<and> hex_digit d \<noteq> CHR ''X'' \<and> \<not> isspace (hex_digit d)"
  by (drule lt16_cases) (elim disjE; simp add: hex_digit_def isspace_def)

lemma unat_byte_lt: "unat (b :: byte) < 256"
  using unsigned_less[of b, where 'a = nat] by simp

lemma unat_byte_of_int: "n < 256 \<Longrightarrow> unat (of_int (int n) :: byte) = n"
  by (simp add: unat_of_nat)

lemma byte_of_int_unat: "of_int (int (unat b)) = (b :: byte)"
  by simp

lemma stoi16_pair:
  assumes "a < 16" "b < 16"
  shows "stoi16 [hex_digit a, hex_digit b] = Inr (int (16 * a + b))"
  using assms hex_digit_plain[of a] hex_digit_plain[of b]
  by (simp add: stoi16_def is_hex_hex_digit hex_val_hex_digit)

lemma hex_digits_byte:
  assumes "n < 256"
  shows "setw_fill 2 (CHR ''0'') (hex_digits n) = [hex_digit (n div 16), hex_digit (n mod 16)]"
proof (cases "n < 16")
  case True
  then have "hex_digits n = [hex_digit n]" by (simp add: hex_digits.simps)
  moreover have "hex_digit 0 = CHR ''0''" by (simp add: hex_digit_def)
  ultimately show ?thesis using True by (simp add: setw_fill_def)
next
  case False
  then have "n div 16 < 16" using assms by simp
  then have "hex_digits (n div 16) = [hex_digit (n div 16)]" by (simp add: hex_digits.simps)
  then have "hex_digits n = [hex_digit (n div 16), hex_digit (n mod 16)]"
    using False by (subst hex_digits.simps) simp
  then show ?thesis by (simp add: setw_fill_def)
qed

lemma bytesToHex_Cons:
  "bytesToHex (b # bs) = hex_digit (unat b div 16) # hex_digit (unat b mod 16) # bytesToHex bs"
proof -
  show ?thesis using unat_byte_lt[of b] by (simp add: hex_digits_byte)
qed

lemma hexToBytes_bytesToHex: "hexToBytes (bytesToHex bs) = Inr bs"
proof (induction bs)
  case Nil
  show ?case by simp
next
  case (Cons b bs)
  have d: "unat b div 16 < 16" using unat_byte_lt[of b] by simp
  have "stoi16 [hex_digit (unat b div 16), hex_digit (unat b mod 16)] = Inr (int (unat b))"
    using stoi16_pair[OF d, of "unat b mod 16"] by simp
  then show ?case
    using Cons.IH by (simp add: bytesToHex_Cons del: bytesToHex.simps)
qed

lemma length_bytesToHex: "length (bytesToHex bs) = 2 * length bs"
  by (induction bs) (simp_all add: bytesToHex_Cons del: bytesToHex.simps(2))

lemma is_lower_hex_digit: "is_lower_hex c \<Longrightarrow> hex_val c \<noteq> None \<and> the (hex_val c) < 16 \<and> c = hex_digit (the (hex_val c))"
  unfolding is_lower_hex_def by (auto simp: hex_digit_def hex_val_def)

lemma lower_hex_bytesToHex: "list_all is_lower_hex (bytesToHex bs)"
proof (induction bs)
  case Nil show ?case by simp
next
  case (Cons b bs)
  have "is_lower_hex (hex_digit d)" if "d < 16" for d
    using lt16_cases[OF that] by (elim disjE; simp add: hex_digit_def is_lower_hex_def)
  moreover have "unat b div 16 < 16" using unat_byte_lt[of b] by simp
  ultimately show ?case using Cons.IH by (simp add: bytesToHex_Cons del: bytesToHex.simps(2))
qed

lemma bytesToHex_hexToBytes:
  "even (length s) \<Longrightarrow> list_all is_lower_hex s \<Longrightarrow> \<exists>bs. hexToBytes s = Inr bs \<and> bytesToHex bs = s"
proof (induction s rule: hexToBytes.induct)
  case 1
  show ?case by simp
next
  case (2 c)
  then show ?case by simp
next
  case (3 c1 c2 cs)
  from "3.prems" have ev: "even (length cs)" and lh: "list_all is_lower_hex cs"
    and h1: "is_lower_hex c1" and h2: "is_lower_hex c2" by simp_all
  define a where "a = the (hex_val c1)"
  define b where "b = the (hex_val c2)"
  have a: "a < 16" "c1 = hex_digit a" using is_lower_hex_digit[OF h1] by (simp_all add: a_def)
  have b: "b < 16" "c2 = hex_digit b" using is_lower_hex_digit[OF h2] by (simp_all add: b_def)
  have st: "stoi16 [c1, c2] = Inr (int (16 * a + b))" using stoi16_pair a b by simp
  have v: "16 * a + b < 256" using a b by simp
  then have u: "unat (of_int (int (16 * a + b)) :: byte) = 16 * a + b"
    by (rule unat_byte_of_int)
  have d: "(16 * a + b) div 16 = a" "(16 * a + b) mod 16 = b" using b by simp_all
  obtain bs where bs: "hexToBytes cs = Inr bs" "bytesToHex bs = cs"
    using "3.IH"[OF st ev lh] by blast
  show ?case
    using st bs a(2) b by (simp add: bytesToHex_Cons u d del: bytesToHex.simps(2) of_int_of_nat_eq of_nat_add of_nat_mult)
qed

lemma stoi16_single: "stoi16 [c] = (if is_hex c then Inr (int (the (hex_val c))) else Inl InvalidArgument)"
proof (cases "is_hex c")
  case True
  then have "\<not> isspace c" "c \<noteq> CHR ''-''" "c \<noteq> CHR ''+''"
    by (auto simp: is_hex_def hex_val_def isspace_def)
  moreover have "the (hex_val c) < 16"
    using True by (auto simp: is_hex_def hex_val_def Let_def split: if_splits)
  ultimately show ?thesis using True by (simp add: stoi16_def)
next
  case False
  then show ?thesis by (simp add: stoi16_def)
qed

lemma hex_val_lt16: "hex_val c = Some d \<Longrightarrow> d < 16"
  by (auto simp: hex_val_def Let_def split: if_splits)

lemma is_hex_plain:
  "is_hex c \<Longrightarrow> \<not> isspace c \<and> c \<noteq> CHR ''-'' \<and> c \<noteq> CHR ''+'' \<and> c \<noteq> CHR ''x'' \<and> c \<noteq> CHR ''X''"
  by (auto simp: is_hex_def hex_val_def isspace_def)

lemma stoi16_chunk_result:
  "\<exists>v. stoi16 [c1, c2] = (if leading_hex [c1, c2] then Inr v else Inl InvalidArgument)"
proof -
  have b: "the (hex_val c) < 16" if "is_hex c" for c
    using that hex_val_lt16[of c] by (auto simp: is_hex_def)
  show ?thesis
    using is_hex_plain[of c1] is_hex_plain[of c2] b[of c1] b[of c2]
    by (cases "is_hex c1"; cases "is_hex c2"; cases "isspace c1")
       (auto simp: stoi16_def Let_def)
qed

lemma hexToBytes_result:
  "\<exists>bs. hexToBytes s = (if list_all leading_hex (chunks s) then Inr bs else Inl InvalidArgument)"
proof (induction s rule: chunks.induct)
  case 1
  show ?case by simp
next
  case (2 c)
  show ?case by (simp add: stoi16_single)
next
  case (3 c1 c2 cs)
  obtain v where v: "stoi16 [c1, c2] = (if leading_hex [c1, c2] then Inr v else Inl InvalidArgument)"
    using stoi16_chunk_result by blast
  obtain bs where bs: "hexToBytes cs = (if list_all leading_hex (chunks cs) then Inr bs else Inl InvalidArgument)"
    using 3 by blast
  show ?case
    by (cases "leading_hex [c1, c2]"; cases "list_all leading_hex (chunks cs)")
       (simp_all add: v bs del: leading_hex.simps)
qed

text \<open>
  C7.  For every byte sequence \<open>b\<close>, decoding the hex encoding of \<open>b\<close> returns \<open>b\<close>
  unchanged: \<^verbatim>\<open>hexToBytes(bytesToHex(b)) == b\<close>.
\<close>

theorem C7_decode_encode: "hexToBytes (bytesToHex b) = Inr b"
  by (rule hexToBytes_bytesToHex)

text \<open>
  C8, as stated, fails: a string of odd length and a string with a character that is
  not a hex digit are both decoded, without any error.
\<close>

theorem C8_counterexample:
  "hexToBytes ''a'' = Inr [10] \<and> hexToBytes ''1g'' = Inr [1]"
  by (simp add: stoi16_def is_hex_def hex_val_def isspace_def)

text \<open>
  C8, amended.  \<^verbatim>\<open>hexToBytes\<close> fails exactly when one of the chunks it cuts its
  argument into (two characters each, the last one a single character when the length is
  odd) does not begin with a hex number; the error then is the invalid-argument error of
  \<^verbatim>\<open>std::stoi\<close>, and no byte sequence is returned.  Every other string is decoded.
\<close>

theorem C8_decode_fails_iff:
  "(hexToBytes s = Inl InvalidArgument) = (\<not> list_all leading_hex (chunks s)) \<and>
   (\<exists>bs. hexToBytes s = Inr bs) = list_all leading_hex (chunks s)"
  using hexToBytes_result[of s] by (cases "list_all leading_hex (chunks s)") auto

text \<open>
  C10.  For every even-length string \<open>s\<close> of lower-case hex digits, encoding its
  decoding gives \<open>s\<close> back: \<^verbatim>\<open>bytesToHex(hexToBytes(s)) == s\<close>.
\<close>

theorem C10_encode_decode:
  "even (length s) \<Longrightarrow> list_all is_lower_hex s \<Longrightarrow>
     \<exists>bs. hexToBytes s = Inr bs \<and> bytesToHex bs = s"
  by (rule bytesToHex_hexToBytes)

theorem C10_encode_decode_witness:
  "even (length ''00ff3a'') \<and> list_all is_lower_hex ''00ff3a'' \<and>
     (\<exists>bs. hexToBytes ''00ff3a'' = Inr bs \<and> bytesToHex bs = ''00ff3a'')"
  using C10_encode_decode [of "''00ff3a''"] by (simp add: is_lower_hex_def)

section \<open>Properties of the cipher mode\<close>


lemma length_word_bytes: "length (word_bytes k w) = k"
  by (simp add: word_bytes_def)

lemma length_xor_bytes: "length (xor_bytes xs ys) = min (length xs) (length ys)"
  by (simp add: xor_bytes_def)

lemma xor_bytes_cancel: "length xs \<le> length ks \<Longrightarrow> xor_bytes (xor_bytes xs ks) ks = xs"
proof (induction xs arbitrary: ks)
  case Nil
  show ?case by (simp add: xor_bytes_def)
next
  case (Cons x xs)
  then obtain k ks' where ks: "ks = k # ks'" by (cases ks) auto
  with Cons.prems have "length xs \<le> length ks'" by simp
  from Cons.IH[OF this] show ?case
    by (simp add: ks xor_bytes_def xor.assoc)
qed

lemma ccm_crypt_Nil: "ccm_crypt enc nonce i [] = []"
  by (simp add: ccm_crypt.simps)

lemma ccm_crypt_step:
  "d \<noteq> [] \<Longrightarrow> ccm_crypt enc nonce i d =
     xor_bytes (take 16 d) (word_bytes 16 (enc (ccm_ctr nonce i))) @ ccm_crypt enc nonce (i + 1) (drop 16 d)"
  by (subst ccm_crypt.simps) simp

lemma length_ccm_crypt: "length (ccm_crypt enc nonce i d) = length d"
proof (induction enc nonce i d rule: ccm_crypt.induct)
  case (1 enc nonce i d)
  show ?case
  proof (cases "d = []")
    case True
    then show ?thesis by (simp add: ccm_crypt.simps)
  next
    case False
    have "length (ccm_crypt enc nonce i d) =
        length (xor_bytes (take 16 d) (word_bytes 16 (enc (ccm_ctr nonce i)))) + length (ccm_crypt enc nonce (i + 1) (drop 16 d))"
      using False by (subst ccm_crypt.simps) simp
    also have "\<dots> = min (length d) 16 + (length d - 16)"
      using 1[OF False] by (simp add: length_xor_bytes length_word_bytes)
    finally show ?thesis by simp
  qed
qed

lemma ccm_crypt_involution: "ccm_crypt enc nonce i (ccm_crypt enc nonce i d) = d"
proof (induction enc nonce i d rule: ccm_crypt.induct)
  case (1 enc nonce i d)
  show ?case
  proof (cases "d = []")
    case True
    then show ?thesis by (simp add: ccm_crypt.simps)
  next
    case False
    define ks where "ks = word_bytes 16 (enc (ccm_ctr nonce i))"
    define c1 where "c1 = xor_bytes (take 16 d) ks"
    define rest where "rest = ccm_crypt enc nonce (i + 1) (drop 16 d)"
    have out: "ccm_crypt enc nonce i d = c1 @ rest"
      using False by (subst ccm_crypt.simps) (simp add: c1_def rest_def ks_def)
    have lks: "length ks = 16" by (simp add: ks_def length_word_bytes)
    have lc1: "length c1 = min (length d) 16" by (simp add: c1_def length_xor_bytes lks)
    have lrest: "length rest = length d - 16" by (simp add: rest_def length_ccm_crypt)
    have ne: "c1 @ rest \<noteq> []" using False lc1 by (cases d) auto
    have tk: "take 16 (c1 @ rest) = c1" using lc1 lrest by (cases "length d \<le> 16") auto
    have dr: "drop 16 (c1 @ rest) = rest" using lc1 lrest by (cases "length d \<le> 16") auto
    have x: "xor_bytes c1 ks = take 16 d"
      unfolding c1_def by (rule xor_bytes_cancel) (simp add: lks)
    have "ccm_crypt enc nonce i (c1 @ rest) = xor_bytes c1 ks @ ccm_crypt enc nonce (i + 1) rest"
      unfolding ccm_crypt_step[OF ne] tk dr ks_def ..
    also have "\<dots> = take 16 d @ drop 16 d"
      using 1[OF False] by (simp add: x rest_def)
    finally show ?thesis by (simp add: out)
  qed
qed

lemma int_of_size_small: "n < 2 ^ 31 \<Longrightarrow> int_of_size n = int n"
proof -
  assume "n < 2 ^ 31"
  then have "int n < 2 ^ 31" by (metis of_nat_less_iff of_nat_numeral of_nat_power)
  then show ?thesis by (simp add: int_of_size_def Let_def)
qed

lemma char_of_byte_of_char: "char_of_byte (byte_of_char c) = c"
proof -
  have "unat (of_nat (of_char c) :: byte) = of_char c mod 256"
    by (simp only: unat_of_nat take_bit_eq_mod) simp
  then have "unat (of_nat (of_char c) :: byte) = of_char c"
    by (simp only: of_char_mod_256)
  then show ?thesis by (simp add: char_of_byte_def byte_of_char_def)
qed

lemma map_char_of_byte_of_char: "map char_of_byte (map byte_of_char s) = s"
  by (induction s) (simp_all add: char_of_byte_of_char)

lemma length_ccm_tag: "length (ccm_tag enc nonce msg) = 16"
  by (simp add: ccm_tag_def length_xor_bytes length_word_bytes)

section \<open>Properties of \<^verbatim>\<open>encrypt\<close> and \<^verbatim>\<open>decrypt\<close>\<close>

lemma encrypt_success:
  assumes "msg \<noteq> [] \<or> \<not> empty_data_null P" and "length msg < 2 ^ 24"
  shows "encrypt P (Some r) key msg =
     Inr (bytesToHex (word_bytes 12 r
        @ ccm_crypt (aes128 P (ccm_key P key)) (word_bytes 12 r) 1 (map byte_of_char msg)
        @ ccm_tag (aes128 P (ccm_key P key)) (word_bytes 12 r) (map byte_of_char msg)))"
proof -
  have "length msg < 2 ^ 31" using assms(2) by simp
  then have i: "int_of_size (length msg) = int (length msg)" by (rule int_of_size_small)
  have "int (length msg) < 2 ^ 24" using assms(2) by (metis of_nat_less_iff of_nat_numeral of_nat_power)
  then show ?thesis using assms(1) by (auto simp: encrypt_def i Let_def)
qed

lemma decrypt_envelope:
  assumes "length nonce = 12" and "length tag = 16" and "length ct < 2 ^ 24"
    and "ct \<noteq> [] \<or> \<not> empty_data_null P"
  shows "decrypt P key (bytesToHex (nonce @ ct @ tag)) =
     (let plaintext = ccm_crypt (aes128 P (ccm_key P key)) nonce 1 ct
      in if ccm_tag (aes128 P (ccm_key P key)) nonce plaintext = tag
         then Inr (map char_of_byte plaintext)
         else Inl (RuntimeError ''Failed to decrypt message or tag verification failed''))"
proof -
  have "length ct < 2 ^ 31" using assms(3) by simp
  then have i: "int_of_size (length ct) = int (length ct)" by (rule int_of_size_small)
  have l: "int (length ct) < 2 ^ 24" using assms(3) by (metis of_nat_less_iff of_nat_numeral of_nat_power)
  show ?thesis
    using assms(1,2,4) l by (auto simp: decrypt_def hexToBytes_bytesToHex i Let_def)
qed

text \<open>
  An envelope with at least one byte of ciphertext, fewer than \<open>2\<^sup>2\<^sup>4\<close>, and a tag that
  is not the tag of its decryption is rejected.
\<close>

lemma decrypt_rejects_bad_tag:
  assumes "hexToBytes encryptedHex = Inr bs" and "28 < length bs" and "length bs < 2 ^ 24 + 28"
    and "ccm_tag (aes128 P (ccm_key P key)) (take 12 bs)
           (ccm_crypt (aes128 P (ccm_key P key)) (take 12 bs) 1 (take (length bs - 28) (drop 12 bs)))
         \<noteq> drop (length bs - 16) bs"
  shows "decrypt P key encryptedHex = Inl (RuntimeError ''Failed to decrypt message or tag verification failed'')"
proof -
  have "length bs - 28 < 2 ^ 31" using assms(3) by simp
  then have i: "int_of_size (length bs - 28) = int (length bs - 28)" by (rule int_of_size_small)
  have "length bs - 28 < 2 ^ 24" using assms(2,3) by simp
  then have l: "int (length bs - 28) < 2 ^ 24" by (metis of_nat_less_iff of_nat_numeral of_nat_power)
  have n: "nat (int (length bs) - 28) = length bs - 28" by simp
  show ?thesis
    using assms(1,2,4) l by (simp add: decrypt_def i Let_def n)
qed

text \<open>
  Where an empty vector has a null data pointer, \<^verbatim>\<open>encrypt\<close> returns no envelope
  for the empty plaintext.
\<close>

lemma encrypt_empty_plaintext:
  "empty_data_null P \<Longrightarrow> encrypt P (Some r) key [] = Inl (RuntimeError ''Failed to get tag'')"
  by (simp add: encrypt_def int_of_size_def)

text \<open>
  C2, as stated, fails: \<^verbatim>\<open>encrypt\<close> returns no envelope for a plaintext of \<open>2\<^sup>2\<^sup>4\<close>
  bytes, whose length the three-byte length field of the mode cannot hold.
\<close>

theorem C2_counterexample:
  "encrypt toy_platform (Some 1) ''key'' (replicate (2 ^ 24) (CHR ''a'')) =
     Inl (RuntimeError ''Failed to encrypt message'')"
  by (simp add: encrypt_def int_of_size_def toy_platform_def)

text \<open>
  C2, amended.  For every key-material string \<open>k\<close>, every nonce and every plaintext
  \<open>p\<close> of at least one and fewer than \<open>2\<^sup>2\<^sup>4\<close> bytes (the empty plaintext too where an
  empty vector has a data pointer that is not null), \<^verbatim>\<open>encrypt\<close> returns an
  envelope and \<^verbatim>\<open>decrypt\<close> under the same key returns \<open>p\<close> from it.
\<close>

theorem C2_roundtrip:
  assumes "msg \<noteq> [] \<or> \<not> empty_data_null P" and "length msg < 2 ^ 24"
  shows "\<exists>env. encrypt P (Some r) key msg = Inr env \<and> decrypt P key env = Inr msg"
proof -
  let ?enc = "aes128 P (ccm_key P key)"
  let ?nonce = "word_bytes 12 r"
  let ?data = "map byte_of_char msg"
  let ?ct = "ccm_crypt ?enc ?nonce 1 ?data"
  let ?tag = "ccm_tag ?enc ?nonce ?data"
  have e: "encrypt P (Some r) key msg = Inr (bytesToHex (?nonce @ ?ct @ ?tag))"
    using assms by (rule encrypt_success)
  have ne: "?ct \<noteq> [] \<or> \<not> empty_data_null P"
    using assms(1) length_ccm_crypt[of ?enc ?nonce 1 ?data] by (cases msg) auto
  have lt: "length ?ct < 2 ^ 24"
    using assms(2) by (simp add: length_ccm_crypt)
  have "decrypt P key (bytesToHex (?nonce @ ?ct @ ?tag)) = Inr msg"
    unfolding decrypt_envelope[OF length_word_bytes length_ccm_tag lt ne]
    by (simp add: ccm_crypt_involution o_def char_of_byte_of_char del: One_nat_def)
  with e show ?thesis by simp
qed

theorem C2_roundtrip_witness:
  "''Hello, World!!!!!!!!'' \<noteq> [] \<and> length ''Hello, World!!!!!!!!'' < 2 ^ 24 \<and>
   (\<exists>env. encrypt toy_platform (Some 1) ''key'' ''Hello, World!!!!!!!!'' = Inr env \<and>
      decrypt toy_platform ''key'' env = Inr ''Hello, World!!!!!!!!'')"
  using C2_roundtrip [of "''Hello, World!!!!!!!!''" toy_platform 1 "''key''"] by simp

text \<open>
  C9, as stated, fails: for a plaintext of \<open>2\<^sup>2\<^sup>4 + 1\<close> bytes \<^verbatim>\<open>encrypt\<close> returns
  no string at all.
\<close>

theorem C9_counterexample:
  "encrypt toy_platform (Some 2) ''k'' (replicate (2 ^ 24 + 1) (CHR ''b'')) =
     Inl (RuntimeError ''Failed to encrypt message'')"
  by (simp add: encrypt_def int_of_size_def toy_platform_def)

text \<open>
  C9, amended.  For every key-material string, every nonce and every plaintext of \<open>n\<close>
  bytes with \<open>1 \<le> n < 2\<^sup>2\<^sup>4\<close> (and \<open>n = 0\<close> too where an empty vector has a data pointer
  that is not null), \<^verbatim>\<open>encrypt\<close> returns a string of exactly \<open>24 + 2 * n + 32\<close>
  lower-case hex digits.
\<close>

theorem C9_envelope_length:
  assumes "msg \<noteq> [] \<or> \<not> empty_data_null P" and "length msg < 2 ^ 24"
  shows "\<exists>env. encrypt P (Some r) key msg = Inr env \<and>
           length env = 24 + 2 * length msg + 32 \<and> list_all is_lower_hex env"
  using encrypt_success[OF assms]
  by (simp add: length_bytesToHex lower_hex_bytesToHex length_word_bytes length_ccm_tag length_ccm_crypt)

theorem C9_envelope_length_witness:
  "''secret'' \<noteq> [] \<and> length ''secret'' < 2 ^ 24 \<and>
   (\<exists>env. encrypt toy_platform (Some 3) ''k'' ''secret'' = Inr env \<and>
      length env = 24 + 2 * length ''secret'' + 32 \<and> list_all is_lower_hex env)"
  using C9_envelope_length [of "''secret''" toy_platform 3 "''k''"] by simp

text \<open>
  C6.  For every key-material string and every hex envelope that decodes to fewer than
  28 bytes, \<^verbatim>\<open>decrypt\<close> fails with the error of the length check and returns no
  plaintext; the error is the same for every key, hash and cipher, none of which has
  been used when it is raised.
\<close>

theorem C6_too_short:
  "hexToBytes encryptedHex = Inr bs \<Longrightarrow> length bs < 28 \<Longrightarrow>
     decrypt P key encryptedHex = Inl (RuntimeError ''Invalid encrypted data length'')"
  by (simp add: decrypt_def)

theorem C6_too_short_witness:
  "hexToBytes ''0a0b0c'' = Inr [10, 11, 12] \<and> length [10 :: byte, 11, 12] < 28 \<and>
   decrypt toy_platform ''key'' ''0a0b0c'' = Inl (RuntimeError ''Invalid encrypted data length'')"
proof -
  have h: "hexToBytes ''0a0b0c'' = Inr [10, 11, 12]"
    by (simp add: stoi16_def is_hex_def hex_val_def isspace_def)
  show ?thesis
    using C6_too_short [OF h, of toy_platform "''key''"] h by simp
qed

text \<open>
  C5 does not hold of the code at an envelope of exactly 28 bytes, nonce and tag with no
  ciphertext between them.  Where an empty vector has a null data pointer,
  \<^verbatim>\<open>decrypt\<close> returns the empty string for every such envelope and every key:
  the call that would compare the tag is made with a null output pointer and passes
  associated data instead.
\<close>

theorem C5_empty_ciphertext_unchecked:
  "empty_data_null P \<Longrightarrow> hexToBytes encryptedHex = Inr bs \<Longrightarrow> length bs = 28 \<Longrightarrow>
     decrypt P key encryptedHex = Inr []"
  by (simp add: decrypt_def int_of_size_def)

theorem C5_empty_ciphertext_unchecked_witness:
  "empty_data_null toy_platform \<and>
   hexToBytes ''00000000000000000000000000000000000000000000000000000000'' = Inr (replicate 28 0) \<and>
   length (replicate 28 (0 :: byte)) = 28 \<and>
   decrypt toy_platform ''key'' ''00000000000000000000000000000000000000000000000000000000'' = Inr []"
proof -
  have p: "empty_data_null toy_platform" by (simp add: toy_platform_def)
  have h: "hexToBytes ''00000000000000000000000000000000000000000000000000000000'' = Inr (replicate 28 0)"
    by (simp add: stoi16_def is_hex_def hex_val_def isspace_def eval_nat_numeral)
  show ?thesis
    using C5_empty_ciphertext_unchecked [OF p h, of "''key''"] p h by simp
qed

section \<open>Properties of the big-number conversions\<close>















section \<open>The modular inverse\<close>

lemma egcd_0: "egcd a 0 = (1, 0)"
  by (subst egcd.simps) simp

lemma egcd_pos:
  "0 < b \<Longrightarrow> egcd a b = (case egcd b (a mod b) of (x, y) \<Rightarrow> (y, x - y * int (a div b)))"
  by (subst egcd.simps) simp



section \<open>The group of the multiples of the generator\<close>






section \<open>A kept nonce gives a signature that verifies\<close>





section \<open>A point written and read back\<close>



section \<open>A signature written and read back\<close>






section \<open>The curve of the class\<close>

text \<open>
  The constants of \<open>prime256v1\<close> fit together: order and prime have 256 bits, and the
  generator satisfies the curve equation (the quotient of the division by the prime is
  given, so that only products are computed).
\<close>

lemma prime256v1_sizes:
  "1 < ord_n prime256v1 \<and> ord_n prime256v1 < 2 ^ 256 \<and> fld_p prime256v1 < 2 ^ 256"
  by (simp add: prime256v1_def)

lemma prime256v1_generator: "on_curve prime256v1 (generator prime256v1)"
proof -
  let ?p = "0xffffffff00000001000000000000000000000000ffffffffffffffffffffffff :: nat"
  let ?a = "0xffffffff00000001000000000000000000000000fffffffffffffffffffffffc :: nat"
  let ?b = "0x5ac635d8aa3a93e7b3ebbd55769886bc651d06b0cc53b0f63bce3c3e27d2604b :: nat"
  let ?x = "0x6b17d1f2e12c4247f8bce6e563a440f277037d812deb33a0f4a13945d898c296 :: nat"
  let ?y = "0x4fe342e2fe1a7f9b8ee7eb4a7c0f9e162bce33576b315ececbb6406837bf51f5 :: nat"
  let ?q = "0x12bdd1ad23dfc833dccf5f6141d6bb4a1f365dc1430b0e600b52dd851938d2d6fe48d89a1028327df66c2a7b9edc3e46cdec89e6af942f1b022b7fe93b37c6ee :: nat"
  have e: "?x * ?x * ?x + ?a * ?x + ?b = ?y * ?y + ?q * ?p"
    by simp
  have m: "(?y * ?y) mod ?p = (?x * ?x * ?x + ?a * ?x + ?b) mod ?p"
    unfolding e by (simp only: mod_mult_self1)
  have l: "?x < ?p" "?y < ?p"
    by simp_all
  show ?thesis
    unfolding prime256v1_def generator_def curve.select_convs on_curve.simps
    using l m by (intro conjI)
qed

section \<open>Properties of the keys, the signatures and the shared key\<close>









section \<open>The small curve\<close>

text \<open>
  The properties asked of a curve are computed for \<open>toy_curve\<close>: its nineteen multiples of
  the generator, and their sums.
\<close>

lemma toy_fields:
  "fld_p toy_curve = 17" "coef_a toy_curve = 2" "coef_b toy_curve = 2" "ord_n toy_curve = 19"
  "generator toy_curve = Affine 5 1"
  by (simp_all add: toy_curve_def generator_def)

lemma toy_add:
  "point_add toy_curve (Affine x1 y1) (Affine x2 y2) =
     (if x1 = x2 \<and> y1 = y2 \<and> y1 \<noteq> 0
        then third_point 17 (fdiv 17 (3 * x1 * x1 + 2) (2 * y1)) x1 y1 x2
      else if x1 = x2 then Infinity
      else third_point 17 (fdiv 17 (fsub 17 y2 y1) (fsub 17 x2 x1)) x1 y1 x2)"
  by (simp add: toy_curve_def Let_def)

lemma toy_add_Infinity:
  "point_add toy_curve Infinity Q = Q" "point_add toy_curve (Affine x y) Infinity = Affine x y"
  by simp_all

lemma toy_inverses:
  "mod_inverse 0 17 = 0"
  "mod_inverse (Suc 0) 17 = Suc 0"
  "mod_inverse 2 17 = 9"
  "mod_inverse 3 17 = 6"
  "mod_inverse 4 17 = 13"
  "mod_inverse 5 17 = 7"
  "mod_inverse 6 17 = 3"
  "mod_inverse 7 17 = 5"
  "mod_inverse 8 17 = 15"
  "mod_inverse 9 17 = 2"
  "mod_inverse 10 17 = 12"
  "mod_inverse 11 17 = 14"
  "mod_inverse 12 17 = 10"
  "mod_inverse 13 17 = 4"
  "mod_inverse 14 17 = 11"
  "mod_inverse 15 17 = 8"
  "mod_inverse 16 17 = 16"
  by (simp_all add: mod_inverse_def egcd_0 egcd_pos)

lemmas toy_eval = toy_add toy_add_Infinity third_point_def fdiv_def fsub_def toy_inverses Let_def

lemma toy_step:
  "point_mul toy_curve k (generator toy_curve) = Q \<Longrightarrow> point_add toy_curve (Affine 5 1) Q = R \<Longrightarrow>
     Suc k = k' \<Longrightarrow> point_mul toy_curve k' (generator toy_curve) = R"
  by (auto simp: toy_fields)

lemma toy_m0: "point_mul toy_curve 0 (generator toy_curve) = Infinity"
  by simp

lemma toy_m1: "point_mul toy_curve (Suc 0) (generator toy_curve) = Affine 5 1"
  by (rule toy_step [OF toy_m0]) (simp_all add: toy_eval del: point_add.simps)

lemma toy_m2: "point_mul toy_curve 2 (generator toy_curve) = Affine 6 3"
  by (rule toy_step [OF toy_m1]) (simp_all add: toy_eval del: point_add.simps)

lemma toy_m3: "point_mul toy_curve 3 (generator toy_curve) = Affine 10 6"
  by (rule toy_step [OF toy_m2]) (simp_all add: toy_eval del: point_add.simps)

lemma toy_m4: "point_mul toy_curve 4 (generator toy_curve) = Affine 3 1"
  by (rule toy_step [OF toy_m3]) (simp_all add: toy_eval del: point_add.simps)

lemma toy_m5: "point_mul toy_curve 5 (generator toy_curve) = Affine 9 16"
  by (rule toy_step [OF toy_m4]) (simp_all add: toy_eval del: point_add.simps)

lemma toy_m6: "point_mul toy_curve 6 (generator toy_curve) = Affine 16 13"
  by (rule toy_step [OF toy_m5]) (simp_all add: toy_eval del: point_add.simps)

lemma toy_m7: "point_mul toy_curve 7 (generator toy_curve) = Affine 0 6"
  by (rule toy_step [OF toy_m6]) (simp_all add: toy_eval del: point_add.simps)

lemma toy_m8: "point_mul toy_curve 8 (generator toy_curve) = Affine 13 7"
  by (rule toy_step [OF toy_m7]) (simp_all add: toy_eval del: point_add.simps)

lemma toy_m9: "point_mul toy_curve 9 (generator toy_curve) = Affine 7 6"
  by (rule toy_step [OF toy_m8]) (simp_all add: toy_eval del: point_add.simps)

lemma toy_m10: "point_mul toy_curve 10 (generator toy_curve) = Affine 7 11"
  by (rule toy_step [OF toy_m9]) (simp_all add: toy_eval del: point_add.simps)

lemma toy_m11: "point_mul toy_curve 11 (generator toy_curve) = Affine 13 10"
  by (rule toy_step [OF toy_m10]) (simp_all add: toy_eval del: point_add.simps)

lemma toy_m12: "point_mul toy_curve 12 (generator toy_curve) = Affine 0 11"
  by (rule toy_step [OF toy_m11]) (simp_all add: toy_eval del: point_add.simps)

lemma toy_m13: "point_mul toy_curve 13 (generator toy_curve) = Affine 16 4"
  by (rule toy_step [OF toy_m12]) (simp_all add: toy_eval del: point_add.simps)

lemma toy_m14: "point_mul toy_curve 14 (generator toy_curve) = Affine 9 1"
  by (rule toy_step [OF toy_m13]) (simp_all add: toy_eval del: point_add.simps)

lemma toy_m15: "point_mul toy_curve 15 (generator toy_curve) = Affine 3 16"
  by (rule toy_step [OF toy_m14]) (simp_all add: toy_eval del: point_add.simps)

lemma toy_m16: "point_mul toy_curve 16 (generator toy_curve) = Affine 10 11"
  by (rule toy_step [OF toy_m15]) (simp_all add: toy_eval del: point_add.simps)

lemma toy_m17: "point_mul toy_curve 17 (generator toy_curve) = Affine 6 14"
  by (rule toy_step [OF toy_m16]) (simp_all add: toy_eval del: point_add.simps)

lemma toy_m18: "point_mul toy_curve 18 (generator toy_curve) = Affine 5 16"
  by (rule toy_step [OF toy_m17]) (simp_all add: toy_eval del: point_add.simps)

lemmas toy_multiples =
  toy_m0 toy_m1 toy_m2 toy_m3 toy_m4 toy_m5 toy_m6 toy_m7 toy_m8 toy_m9 toy_m10 toy_m11 toy_m12 toy_m13 toy_m14 toy_m15 toy_m16 toy_m17 toy_m18









section \<open>The theorems on the small curve\<close>

lemma num_bits_0: "num_bits 0 = 0"
  by (simp add: num_bits.simps)

lemma num_bits_pos: "0 < v \<Longrightarrow> num_bits v = Suc (num_bits (v div 2))"
  by (subst num_bits.simps) simp







lemma toy_digest: "bits2int toy_curve (sha256 toy_platform ''hello'') = 2"
  by (simp add: bits2int_def toy_fields(4) num_bits_pos num_bits_0 word_bytes_def take_map
        toy_platform_def be_nat_def Let_def)




text \<open>
  What \<^verbatim>\<open>verify\<close> does with a public key that is not a point, here the empty
  string: \<^verbatim>\<open>EC_POINT_oct2point\<close> fails, the key stays the point at infinity, and the
  signature \<open>(r, 1)\<close> with \<open>r\<close> the abscissa of \<open>z G\<close> is accepted for the message with digest
  \<open>z\<close>, without any private key.
\<close>

lemma verify_accepts_without_key:
  "verify toy_curve toy_platform ''3006020106020101'' ''hello'' [] = Inr True"
proof -
  have h: "hexToBytes ''3006020106020101'' = Inr [48, 6, 2, 1, 6, 2, 1, 1]"
    by (simp add: stoi16_def is_hex_def hex_val_def isspace_def)
  have d: "d2i_ECDSA_SIG [48, 6, 2, 1, 6, 2, 1, 1] = Some (6, 1)"
    by (simp add: d2i_ECDSA_SIG_def parse_tlv_def parse_len_def parse_integer_def be_nat_def)
  have inf: "point_mul toy_curve k Infinity = Infinity" for k
    by (induction k) simp_all
  have "ecdsa_do_verify toy_curve 2 (Some (6, 1)) Infinity = 1"
    by (simp add: ecdsa_do_verify_def toy_fields(4) mod_inverse_def egcd_0 egcd_pos inf
          toy_multiples del: point_mul.simps)
  then show ?thesis
    by (simp add: verify_def h d oct2point_def toy_digest del: hexToBytes.simps(2,3))
qed

end
